theory Spec2Isabelle
  imports Main
begin

section \<open>Strings of the panel script\<close>

text \<open>
  The panel script (\<^verbatim>\<open>src/unnamed/part_000\<close>) builds ExtendScript snippets by string
  concatenation. The characters that matter to the string-literal syntax of the snippets
  are named here by their character codes.
\<close>

definition bslash :: char where
  "bslash = CHR 0x5C"

definition squote :: char where
  "squote = CHR 0x27"

definition dquote :: char where
  "dquote = CHR 0x22"

definition newline :: char where
  "newline = CHR 0x0A"

definition creturn :: char where
  "creturn = CHR 0x0D"

text \<open>
  The characters that end a line of script text. A \<^typ>\<open>char\<close> has eight bits, so these
  are the line feed and the carriage return; the two separators beyond eight bits (U+2028,
  U+2029) are not characters of this model.
\<close>

definition line_terminator :: "char \<Rightarrow> bool" where
  "line_terminator c = (c = newline \<or> c = creturn)"

text \<open>
  \<^verbatim>\<open>str.replace(/c/g, r)\<close> for a pattern that is one literal character and a replacement
  text without \<^verbatim>\<open>$\<close>: every occurrence of the character, left to right, is replaced.
\<close>

definition replace_all :: "char \<Rightarrow> string \<Rightarrow> string \<Rightarrow> string" where
  "replace_all c r str = concat (map (\<lambda>x. if x = c then r else [x]) str)"

text \<open>
  \<^verbatim>\<open>
  function EscapeStringForJSX(str){
      return str.replace(/\\/g, '\\\\').replace(/'/g, "\\'").replace(/"/g, '\\"');
  }
  \<close>
\<close>

definition EscapeStringForJSX :: "string \<Rightarrow> string" where
  "EscapeStringForJSX str =
     replace_all dquote [bslash, dquote]
       (replace_all squote [bslash, squote]
          (replace_all bslash [bslash, bslash] str))"

text \<open>
  Modelled from the spec: the reader of string literals belongs to the host engine and is
  not part of the repository. It is the reading direction of the three escapes the spec
  names (backslash-backslash, backslash-quote, backslash-double-quote), over the body of a
  literal delimited by the quote character \<open>q\<close>. A string literal of the script grammar
  cannot hold a raw line terminator or an unescaped delimiter, and cannot end inside an
  escape: such a body is not one literal, \<open>None\<close>. The escapes other than the three are not
  covered by this reader, which answers \<open>None\<close> for them too; \<open>EscapeStringForJSX\<close> never
  produces one.
\<close>

fun parse_literal_body :: "char \<Rightarrow> string \<Rightarrow> string option" where
  "parse_literal_body q [] = Some []"
| "parse_literal_body q [c] =
     (if c = bslash \<or> c = q \<or> line_terminator c then None else Some [c])"
| "parse_literal_body q (c # d # ds) =
     (if c = bslash then
        (if d = bslash \<or> d = squote \<or> d = dquote
         then map_option ((#) d) (parse_literal_body q ds)
         else None)
      else if c = q \<or> line_terminator c then None
      else map_option ((#) c) (parse_literal_body q (d # ds)))"

text \<open>The escape of one character, as the three replacements taken together produce it.\<close>

definition escape_char :: "char \<Rightarrow> string" where
  "escape_char c =
     (if c = bslash then [bslash, bslash]
      else if c = squote then [bslash, squote]
      else if c = dquote then [bslash, dquote]
      else [c])"

section \<open>Values of the panel script\<close>

text \<open>
  The payload of a call is a value decoded from JSON. A number is kept as the text that
  JavaScript prints for it (\<^verbatim>\<open>42\<close>, \<^verbatim>\<open>1.5\<close>, \<^verbatim>\<open>1e+21\<close>): the text determines the
  number, and printing is all the routes do with a number. An object is the list of its own
  keys with their values; a decoded object has no key twice.
\<close>

datatype jsval =
    JUndefined
  | JNull
  | JBool bool
  | JNum string
  | JStr string
  | JArr "jsval list"
  | JObj "(string \<times> jsval) list"

datatype js_error = TypeError | SyntaxError

text \<open>Decimal digits of a natural number, as \<^verbatim>\<open>'_' + suffix\<close> renders a counter.\<close>

definition digit :: "nat \<Rightarrow> char" where
  "digit d = ''0123456789'' ! d"

function string_of_nat :: "nat \<Rightarrow> string" where
  "string_of_nat n =
     (if n < 10 then [digit n]
      else string_of_nat (n div 10) @ [digit (n mod 10)])"
  by pat_completeness auto
termination
  by (relation "measure id") auto

declare string_of_nat.simps [simp del]

fun join_comma :: "string list \<Rightarrow> string" where
  "join_comma [] = []"
| "join_comma [s] = s"
| "join_comma (s # t # ts) = s @ '','' @ join_comma (t # ts)"

text \<open>The results of a list of steps that can throw: the first error, or all the results.\<close>

fun sequence_err :: "('e + 'a) list \<Rightarrow> 'e + 'a list" where
  "sequence_err [] = Inr []"
| "sequence_err (Inl e # rs) = Inl e"
| "sequence_err (Inr a # rs) =
     (case sequence_err rs of Inl e \<Rightarrow> Inl e | Inr as \<Rightarrow> Inr (a # as))"

text \<open>
  The text a value contributes to \<^verbatim>\<open>"..." + v\<close>. An array joins the texts of its
  elements with commas, with nothing for an \<^verbatim>\<open>undefined\<close> or \<^verbatim>\<open>null\<close> element. An
  object decoded from JSON inherits \<^verbatim>\<open>toString\<close>, which prints \<^verbatim>\<open>[object Object]\<close>,
  unless it has a key \<^verbatim>\<open>toString\<close> of its own: that value is not a function, the
  conversion finds no text and throws.
\<close>

fun ToString :: "jsval \<Rightarrow> js_error + string" where
  "ToString JUndefined = Inr ''undefined''"
| "ToString JNull = Inr ''null''"
| "ToString (JBool b) = Inr (if b then ''true'' else ''false'')"
| "ToString (JNum text) = Inr text"
| "ToString (JStr s) = Inr s"
| "ToString (JArr vs) =
     (case sequence_err
             (map (\<lambda>v. if v = JUndefined \<or> v = JNull then Inr [] else ToString v) vs) of
        Inl e \<Rightarrow> Inl e
      | Inr texts \<Rightarrow> Inr (join_comma texts))"
| "ToString (JObj kvs) =
     (if ''toString'' \<in> set (map fst kvs) then Inl TypeError else Inr ''[object Object]'')"

text \<open>
  \<^verbatim>\<open>data.key\<close> for the keys the routes read (none of them is a property that strings,
  numbers, booleans or arrays inherit): reading a property of \<^verbatim>\<open>undefined\<close> or
  \<^verbatim>\<open>null\<close> throws, a key that is absent reads as \<^verbatim>\<open>undefined\<close>.
\<close>

fun getProp :: "jsval \<Rightarrow> string \<Rightarrow> js_error + jsval" where
  "getProp JUndefined k = Inl TypeError"
| "getProp JNull k = Inl TypeError"
| "getProp (JObj kvs) k = Inr (case map_of kvs k of None \<Rightarrow> JUndefined | Some v \<Rightarrow> v)"
| "getProp v k = Inr JUndefined"

text \<open>
  \<^verbatim>\<open>EscapeStringForJSX(v)\<close> on a value: only a string has a \<^verbatim>\<open>replace\<close> method, the
  call throws on anything else.
\<close>

fun EscapeStringForJSX_of :: "jsval \<Rightarrow> js_error + string" where
  "EscapeStringForJSX_of (JStr s) = Inr (EscapeStringForJSX s)"
| "EscapeStringForJSX_of v = Inl TypeError"

definition bind_err :: "'e + 'a \<Rightarrow> ('a \<Rightarrow> 'e + 'b) \<Rightarrow> 'e + 'b" where
  "bind_err m f = (case m of Inl e \<Rightarrow> Inl e | Inr a \<Rightarrow> f a)"

section \<open>The host engine and the promise of a route\<close>

text \<open>
  Modelled from the spec: \<^verbatim>\<open>csInterface.evalScript(script, callback)\<close> is the host's
  library and is not part of the repository. The engine runs the script and calls the
  callback once with a text, or never calls it (\<open>None\<close>). It has no error channel: a script
  that fails is reported in the text the callback gets.
\<close>

datatype engine_result = Completed string | ScriptFailed

type_synonym engine = "string \<Rightarrow> engine_result option"

fun callback_payload :: "engine_result \<Rightarrow> string" where
  "callback_payload (Completed v) = v"
| "callback_payload ScriptFailed = ''EvalScript error.''"

datatype 'a promise = Pending | Resolved 'a | Rejected string

datatype log_entry = Warn string | WarnData string jsval

record panel =
  scripts_sent :: "string list"
  warnings :: "log_entry list"

text \<open>
  \<^verbatim>\<open>
  function runEvalScript(script) {
      return new Promise(function(resolve, reject){
          csInterface.evalScript(script, resolve);
      });
  }
  \<close>
  The script is handed to the engine, and \<^verbatim>\<open>resolve\<close> is the callback; \<^verbatim>\<open>reject\<close> is
  not passed on.
\<close>

definition runEvalScript :: "engine \<Rightarrow> string \<Rightarrow> panel \<Rightarrow> string promise \<times> panel" where
  "runEvalScript eng script p =
     ((case eng script of None \<Rightarrow> Pending | Some r \<Rightarrow> Resolved (callback_payload r)),
      p\<lparr>scripts_sent := scripts_sent p @ [script]\<rparr>)"

text \<open>
  \<^verbatim>\<open>.then(function(result){ log.warn(label + result); return result; })\<close>
\<close>

definition then_warn :: "string \<Rightarrow> string promise \<times> panel \<Rightarrow> string promise \<times> panel" where
  "then_warn label pr =
     (case fst pr of
        Resolved result \<Rightarrow>
          (Resolved result, (snd pr)\<lparr>warnings := warnings (snd pr) @ [Warn (label @ result)]\<rparr>)
      | Pending \<Rightarrow> (Pending, snd pr)
      | Rejected e \<Rightarrow> (Rejected e, snd pr))"

type_synonym route = "jsval \<Rightarrow> engine \<Rightarrow> panel \<Rightarrow> (js_error + string promise) \<times> panel"

text \<open>
  Every route of the panel script has one shape: it logs the call with its payload, builds
  the snippet (which can throw), runs it and logs the result.
  \<^verbatim>\<open>
  RPC.addRoute('Photoshop.open', function (data) {
          log.warn('Server called client route "open":', data);
          var escapedPath = EscapeStringForJSX(data.path);
          return runEvalScript("fileOpen('" + escapedPath +"')")
              .then(function(result){
                  log.warn("open: " + result);
                  return result;
              });
  });
  \<close>
\<close>

definition handler :: "string \<Rightarrow> (jsval \<Rightarrow> js_error + string) \<Rightarrow> string \<Rightarrow> route" where
  "handler called build label data eng p =
     (let p1 = p\<lparr>warnings := warnings p @ [WarnData called data]\<rparr>
      in case build data of
           Inl e \<Rightarrow> (Inl e, p1)
         | Inr script \<Rightarrow>
             (let r = then_warn label (runEvalScript eng script p1)
              in (Inr (fst r), snd r)))"

definition called_route :: "string \<Rightarrow> string" where
  "called_route name = ''Server called client route '' @ [dquote] @ name @ [dquote] @ '':''"

definition quoted :: "string \<Rightarrow> string" where
  "quoted s = [squote] @ s @ [squote]"

section \<open>The routes of the panel script\<close>

text \<open>The snippet each route builds from its payload, in the order of the script.\<close>

definition script_open :: "jsval \<Rightarrow> js_error + string" where
  "script_open data =
     bind_err (getProp data ''path'') (\<lambda>path.
     bind_err (EscapeStringForJSX_of path) (\<lambda>escapedPath.
     Inr (''fileOpen('' @ quoted escapedPath @ '')'')))"

definition script_read :: "jsval \<Rightarrow> js_error + string" where
  "script_read data = Inr ''getHeadline()''"

definition script_get_layers :: "jsval \<Rightarrow> js_error + string" where
  "script_get_layers data = Inr ''getLayers()''"

definition script_set_visible :: "jsval \<Rightarrow> js_error + string" where
  "script_set_visible data =
     bind_err (getProp data ''layer_id'') (\<lambda>layer_id.
     bind_err (ToString layer_id) (\<lambda>layer_id_text.
     bind_err (getProp data ''visibility'') (\<lambda>visibility.
     bind_err (ToString visibility) (\<lambda>visibility_text.
     Inr (''setVisible('' @ layer_id_text @ '', '' @ visibility_text @ '')'')))))"

definition script_get_active_document_name :: "jsval \<Rightarrow> js_error + string" where
  "script_get_active_document_name data = Inr ''getActiveDocumentName()''"

definition script_get_active_document_full_name :: "jsval \<Rightarrow> js_error + string" where
  "script_get_active_document_full_name data = Inr ''getActiveDocumentFullName()''"

definition script_save :: "jsval \<Rightarrow> js_error + string" where
  "script_save data = Inr ''save()''"

definition script_get_selected_layers :: "jsval \<Rightarrow> js_error + string" where
  "script_get_selected_layers data = Inr ''getSelectedLayers()''"

text \<open>
  \<^verbatim>\<open>return runEvalScript("createGroup('" + data.name + "')")\<close>
\<close>

definition script_create_group :: "jsval \<Rightarrow> js_error + string" where
  "script_create_group data =
     bind_err (getProp data ''name'') (\<lambda>name.
     bind_err (ToString name) (\<lambda>name_text.
     Inr (''createGroup('' @ quoted name_text @ '')'')))"

text \<open>
  \<^verbatim>\<open>return runEvalScript("groupSelectedLayers(null, "+ "'" + data.name +"')")\<close>
\<close>

definition script_group_selected_layers :: "jsval \<Rightarrow> js_error + string" where
  "script_group_selected_layers data =
     bind_err (getProp data ''name'') (\<lambda>name.
     bind_err (ToString name) (\<lambda>name_text.
     Inr (''groupSelectedLayers(null, '' @ quoted name_text @ '')'')))"

definition script_import_smart_object :: "jsval \<Rightarrow> js_error + string" where
  "script_import_smart_object data =
     bind_err (getProp data ''path'') (\<lambda>path.
     bind_err (EscapeStringForJSX_of path) (\<lambda>escapedPath.
     Inr (''importSmartObject('' @ quoted escapedPath @ '')'')))"

text \<open>
  \<^verbatim>\<open>
  var escapedPath = EscapeStringForJSX(data.path);
  return runEvalScript("replaceSmartObjects('" + data.layer + "'," +
                                            "'" + escapedPath +"')")
  \<close>
\<close>

definition script_replace_smart_object :: "jsval \<Rightarrow> js_error + string" where
  "script_replace_smart_object data =
     bind_err (getProp data ''path'') (\<lambda>path.
     bind_err (EscapeStringForJSX_of path) (\<lambda>escapedPath.
     bind_err (getProp data ''layer'') (\<lambda>layer.
     bind_err (ToString layer) (\<lambda>layer_text.
     Inr (''replaceSmartObjects('' @ quoted layer_text @ '','' @ quoted escapedPath
          @ '')'')))))"

text \<open>
  \<^verbatim>\<open>return runEvalScript("selectLayers()")\<close>
\<close>

definition script_select_layers :: "jsval \<Rightarrow> js_error + string" where
  "script_select_layers data = Inr ''selectLayers()''"

definition script_is_saved :: "jsval \<Rightarrow> js_error + string" where
  "script_is_saved data = Inr ''isSaved()''"

text \<open>
  \<^verbatim>\<open>
  var escapedPath = EscapeStringForJSX(data.image_path);
  return runEvalScript("saveAs('" + escapedPath + "', " +
                               "'" + data.ext + "', " +
                               data.as_copy + ")")
  \<close>
\<close>

definition script_saveAs :: "jsval \<Rightarrow> js_error + string" where
  "script_saveAs data =
     bind_err (getProp data ''image_path'') (\<lambda>image_path.
     bind_err (EscapeStringForJSX_of image_path) (\<lambda>escapedPath.
     bind_err (getProp data ''ext'') (\<lambda>ext.
     bind_err (ToString ext) (\<lambda>ext_text.
     bind_err (getProp data ''as_copy'') (\<lambda>as_copy.
     bind_err (ToString as_copy) (\<lambda>as_copy_text.
     Inr (''saveAs('' @ quoted escapedPath @ '', '' @ quoted ext_text @ '', ''
          @ as_copy_text @ '')'')))))))"

text \<open>
  \<^verbatim>\<open>
  var escaped = data.payload.replace(/\n/g, "\\n");
  return runEvalScript("imprint('" + escaped + "')")
  \<close>
\<close>

fun replace_newlines_of :: "jsval \<Rightarrow> js_error + string" where
  "replace_newlines_of (JStr s) = Inr (replace_all newline [bslash, CHR ''n''] s)"
| "replace_newlines_of v = Inl TypeError"

definition script_imprint :: "jsval \<Rightarrow> js_error + string" where
  "script_imprint data =
     bind_err (getProp data ''payload'') (\<lambda>payload.
     bind_err (replace_newlines_of payload) (\<lambda>escaped.
     Inr (''imprint('' @ quoted escaped @ '')'')))"

definition route_open :: route where
  "route_open = handler (called_route ''open'') script_open ''open: ''"

definition route_read :: route where
  "route_read = handler (called_route ''read'') script_read ''getHeadline: ''"

definition route_get_layers :: route where
  "route_get_layers = handler (called_route ''get_layers'') script_get_layers ''getLayers: ''"

definition route_set_visible :: route where
  "route_set_visible = handler (called_route ''set_visible'') script_set_visible ''setVisible: ''"

definition route_get_active_document_name :: route where
  "route_get_active_document_name =
     handler (called_route ''get_active_document_name'') script_get_active_document_name
       ''save: ''"

definition route_get_active_document_full_name :: route where
  "route_get_active_document_full_name =
     handler (called_route ''get_active_document_full_name'')
       script_get_active_document_full_name ''save: ''"

definition route_save :: route where
  "route_save = handler (called_route ''save'') script_save ''save: ''"

definition route_get_selected_layers :: route where
  "route_get_selected_layers =
     handler (called_route ''get_selected_layers'') script_get_selected_layers
       ''get_selected_layers: ''"

definition route_create_group :: route where
  "route_create_group =
     handler (called_route ''create_group'') script_create_group ''createGroup: ''"

definition route_group_selected_layers :: route where
  "route_group_selected_layers =
     handler (called_route ''group_selected_layers'') script_group_selected_layers
       ''group_selected_layers: ''"

definition route_import_smart_object :: route where
  "route_import_smart_object =
     handler (called_route ''import_smart_object'') script_import_smart_object
       ''import_smart_object: ''"

definition route_replace_smart_object :: route where
  "route_replace_smart_object =
     handler (''Server called route '' @ [dquote] @ ''replace_smart_object'' @ [dquote] @ '':'')
       script_replace_smart_object ''replaceSmartObjects: ''"

definition route_select_layers :: route where
  "route_select_layers =
     handler (called_route ''select_layers'') script_select_layers ''select_layers: ''"

definition route_is_saved :: route where
  "route_is_saved = handler (called_route ''is_saved'') script_is_saved ''is_saved: ''"

definition route_saveAs :: route where
  "route_saveAs = handler (called_route ''saveAsJPEG'') script_saveAs ''save: ''"

definition route_imprint :: route where
  "route_imprint = handler (called_route ''imprint'') script_imprint ''imprint: ''"

text \<open>
  The calls of \<^verbatim>\<open>RPC.addRoute(name, handler)\<close> the panel script makes while it loads, in
  the order of the script.
\<close>

definition addRoute_calls :: "(string \<times> route) list" where
  "addRoute_calls =
     [(''Photoshop.open'', route_open),
      (''Photoshop.read'', route_read),
      (''Photoshop.get_layers'', route_get_layers),
      (''Photoshop.set_visible'', route_set_visible),
      (''Photoshop.get_active_document_name'', route_get_active_document_name),
      (''Photoshop.get_active_document_full_name'', route_get_active_document_full_name),
      (''Photoshop.save'', route_save),
      (''Photoshop.get_selected_layers'', route_get_selected_layers),
      (''Photoshop.create_group'', route_create_group),
      (''Photoshop.group_selected_layers'', route_group_selected_layers),
      (''Photoshop.import_smart_object'', route_import_smart_object),
      (''Photoshop.replace_smart_object'', route_replace_smart_object),
      (''Photoshop.select_layers'', route_select_layers),
      (''Photoshop.is_saved'', route_is_saved),
      (''Photoshop.saveAs'', route_saveAs),
      (''Photoshop.imprint'', route_imprint)]"

text \<open>
  \<^verbatim>\<open>
  var url = 'ws://localhost:8099/ws/';
  RPC = new WSRPC(url, 5000); // spin connection
  \<close>
  The arguments the channel object is constructed with.
\<close>

record wsrpc_args =
  url :: string
  deadline_ms :: nat

definition RPC :: wsrpc_args where
  "RPC = \<lparr>url = ''ws://localhost:8099/ws/'', deadline_ms = 5000\<rparr>"

section \<open>The Harmony host\<close>

text \<open>
  The globals of Harmony that \<^verbatim>\<open>AvalonHarmony.js\<close> calls: the scene's metadata entries by
  name, the enable state of each node path, and the type of each column name (the empty
  text for a name that no column has).
\<close>

record metadata =
  md_name :: string
  md_type :: string
  md_creator :: string
  md_version :: string
  md_value :: jsval

record harmony =
  scene_metadata :: "string \<rightharpoonup> metadata"
  node_enable :: "string \<Rightarrow> bool"
  column_type :: "string \<Rightarrow> string"

text \<open>
  \<^verbatim>\<open>
  AvalonHarmony.getSceneData = function () {
      var metadata = scene.metadata('avalon');
      if (metadata) {
          return JSON.parse(metadata.value);
      } else {
          return {};
      }
  };
  \<close>
  \<^verbatim>\<open>JSON.parse\<close> and \<^verbatim>\<open>JSON.stringify\<close> are built into the host; they are parameters
  here. \<^verbatim>\<open>JSON.parse\<close> takes a value, reads its text and throws when that is not JSON;
  \<^verbatim>\<open>JSON.stringify\<close> gives a string, or \<^verbatim>\<open>undefined\<close>.
\<close>

definition getSceneData :: "(jsval \<Rightarrow> js_error + jsval) \<Rightarrow> harmony \<Rightarrow> js_error + jsval" where
  "getSceneData JSON_parse h =
     (case scene_metadata h ''avalon'' of
        Some metadata \<Rightarrow> JSON_parse (md_value metadata)
      | None \<Rightarrow> Inr (JObj []))"

text \<open>
  \<^verbatim>\<open>
  AvalonHarmony.setSceneData = function (metadata) {
      scene.setMetadata({
          'name': 'avalon',
          'type': 'string',
          'creator': 'Avalon',
          'version': '1.0',
          'value': JSON.stringify(metadata)
      });
  };
  \<close>
\<close>

definition setMetadata :: "metadata \<Rightarrow> harmony \<Rightarrow> harmony" where
  "setMetadata m h = h\<lparr>scene_metadata := (scene_metadata h)(md_name m \<mapsto> m)\<rparr>"

definition setSceneData :: "(jsval \<Rightarrow> jsval) \<Rightarrow> jsval \<Rightarrow> harmony \<Rightarrow> harmony" where
  "setSceneData JSON_stringify metadata h =
     setMetadata
       \<lparr>md_name = ''avalon'', md_type = ''string'', md_creator = ''Avalon'',
        md_version = ''1.0'', md_value = JSON_stringify metadata\<rparr> h"

text \<open>
  \<^verbatim>\<open>
  AvalonHarmony.setState = function (args) {
      var nodes = args[0];
      var states = args[1];
      // length of both arrays must be equal.
      if (nodes.length !== states.length) {
          return false;
      }
      for (var i = 0; i < nodes.length; i++) {
          node.setEnable(nodes[i], states[i]);
      }
      return true;
  };
  \<close>
  The loop runs only after the lengths were found equal, so \<open>states ! i\<close> is always read
  in range.
\<close>

definition setEnable :: "string \<Rightarrow> bool \<Rightarrow> harmony \<Rightarrow> harmony" where
  "setEnable n b h = h\<lparr>node_enable := (node_enable h)(n := b)\<rparr>"

function setState_loop :: "string list \<Rightarrow> bool list \<Rightarrow> nat \<Rightarrow> harmony \<Rightarrow> harmony" where
  "setState_loop nodes states i h =
     (if i < length nodes
      then setState_loop nodes states (i + 1) (setEnable (nodes ! i) (states ! i) h)
      else h)"
  by pat_completeness auto
termination
  by (relation "measure (\<lambda>(nodes, states, i, h). length nodes - i)") auto

declare setState_loop.simps [simp del]

definition setState :: "string list \<times> bool list \<Rightarrow> harmony \<Rightarrow> bool \<times> harmony" where
  "setState args h =
     (let nodes = fst args; states = snd args
      in if length nodes \<noteq> length states then (False, h)
         else (True, setState_loop nodes states 0 h))"

text \<open>
  \<^verbatim>\<open>
  AvalonHarmony.getUniqueColumnName = function(columnPrefix) {
      var suffix = 0;
      // finds if unique name for a column
      var columnName = columnPrefix;
      while (suffix < 2000) {
          if (!column.type(columnName)) {
              break;
          }

          suffix = suffix + 1;
          columnName = columnPrefix + '_' + suffix;
      }
      return columnName;
  };
  \<close>
  The loop also records, in \<open>asked\<close>, the names it passes to \<^verbatim>\<open>column.type\<close>, oldest
  first. A text is false in a condition exactly when it is empty.
\<close>

function getUniqueColumnName_loop ::
  "harmony \<Rightarrow> string \<Rightarrow> nat \<Rightarrow> string \<Rightarrow> string list \<Rightarrow> string \<times> string list" where
  "getUniqueColumnName_loop h columnPrefix suffix columnName asked =
     (if suffix < 2000 then
        (if column_type h columnName = [] then (columnName, asked @ [columnName])
         else getUniqueColumnName_loop h columnPrefix (suffix + 1)
                (columnPrefix @ ''_'' @ string_of_nat (suffix + 1)) (asked @ [columnName]))
      else (columnName, asked))"
  by pat_completeness auto
termination
  by (relation "measure (\<lambda>(h, columnPrefix, suffix, columnName, asked). 2000 - suffix)") auto

declare getUniqueColumnName_loop.simps [simp del]

definition getUniqueColumnName_run :: "harmony \<Rightarrow> string \<Rightarrow> string \<times> string list" where
  "getUniqueColumnName_run h columnPrefix = getUniqueColumnName_loop h columnPrefix 0 columnPrefix []"

definition getUniqueColumnName :: "harmony \<Rightarrow> string \<Rightarrow> string" where
  "getUniqueColumnName h columnPrefix = fst (getUniqueColumnName_run h columnPrefix)"

text \<open>The candidate names of a prefix: the prefix itself, then the prefix with a counter.\<close>

definition candidate :: "string \<Rightarrow> nat \<Rightarrow> string" where
  "candidate columnPrefix k =
     (if k = 0 then columnPrefix else columnPrefix @ ''_'' @ string_of_nat k)"

definition candidates :: "string \<Rightarrow> string list" where
  "candidates columnPrefix = map (candidate columnPrefix) [0..<2001]"

definition column_free :: "harmony \<Rightarrow> string \<Rightarrow> bool" where
  "column_free h name = (column_type h name = [])"

text \<open>
  The names the loop passes to \<^verbatim>\<open>column.type\<close> along a list of candidates: it stops
  at the first free one. And the name it settles on: the first free one of the list, or the
  fallback.
\<close>

fun examined :: "harmony \<Rightarrow> string list \<Rightarrow> string list" where
  "examined h [] = []"
| "examined h (n # ns) = (if column_free h n then [n] else n # examined h ns)"

definition first_free :: "harmony \<Rightarrow> string list \<Rightarrow> string \<Rightarrow> string" where
  "first_free h names fallback =
     (case find (column_free h) names of Some n \<Rightarrow> n | None \<Rightarrow> fallback)"

text \<open>The writes of \<^verbatim>\<open>node.setEnable\<close> for a list of node and state pairs, first to last.\<close>

definition apply_states :: "(string \<times> bool) list \<Rightarrow> harmony \<Rightarrow> harmony" where
  "apply_states ps h = foldl (\<lambda>h' (n, b). setEnable n b h') h ps"

section \<open>Concrete inputs\<close>

text \<open>A fresh scene: no metadata, every node enabled, no column.\<close>

definition harmony0 :: harmony where
  "harmony0 = \<lparr>scene_metadata = Map.empty, node_enable = (\<lambda>n. True), column_type = (\<lambda>c. [])\<rparr>"

text \<open>A scene with the columns \<^verbatim>\<open>ATV\<close> and \<^verbatim>\<open>ATV_1\<close>, both of type \<^verbatim>\<open>DRAWING\<close>.\<close>

definition harmony_two_columns :: harmony where
  "harmony_two_columns =
     \<lparr>scene_metadata = Map.empty, node_enable = (\<lambda>n. True),
      column_type = (\<lambda>c. if c = ''ATV'' \<or> c = ''ATV_1'' then ''DRAWING'' else [])\<rparr>"

text \<open>A panel that has sent and logged nothing yet.\<close>

definition panel0 :: panel where
  "panel0 = \<lparr>scripts_sent = [], warnings = []\<rparr>"

text \<open>An engine in which every script fails.\<close>

definition engine_failing :: engine where
  "engine_failing = (\<lambda>script. Some ScriptFailed)"

text \<open>
  The two JSON built-ins at one metadata object, \<^verbatim>\<open>{"asset":"hero"}\<close>:
  \<^verbatim>\<open>JSON.stringify\<close> gives its text, and \<^verbatim>\<open>JSON.parse\<close> of that text gives the object.
\<close>

definition sample_metadata :: jsval where
  "sample_metadata = JObj [(''asset'', JStr ''hero'')]"

definition sample_text :: string where
  "sample_text =
     ''{'' @ [dquote] @ ''asset'' @ [dquote] @ '':'' @ [dquote] @ ''hero'' @ [dquote] @ ''}''"

definition JSON_stringify_sample :: "jsval \<Rightarrow> jsval" where
  "JSON_stringify_sample m = (if m = sample_metadata then JStr sample_text else JUndefined)"

definition JSON_parse_sample :: "jsval \<Rightarrow> js_error + jsval" where
  "JSON_parse_sample v = (if v = JStr sample_text then Inr sample_metadata else Inl SyntaxError)"



text \<open>The path of the scenario, \<^verbatim>\<open>C:\temp\a"b.psd"\<close>, and the text expected for it.\<close>

definition scenario_path :: string where
  "scenario_path = ''C:'' @ [bslash] @ ''temp'' @ [bslash] @ ''a'' @ [dquote] @ ''b.psd'' @ [dquote]"

definition scenario_escaped :: string where
  "scenario_escaped =
     ''C:'' @ [bslash, bslash] @ ''temp'' @ [bslash, bslash] @ ''a'' @ [bslash, dquote]
     @ ''b.psd'' @ [bslash, dquote]"

section \<open>Escaping: lemmas\<close>

lemma replace_all_Nil: "replace_all c r [] = []"
  by (simp add: replace_all_def)

lemma replace_all_Cons:
  "replace_all c r (x # xs) = (if x = c then r else [x]) @ replace_all c r xs"
  by (simp add: replace_all_def)

lemma replace_all_append:
  "replace_all c r (xs @ ys) = replace_all c r xs @ replace_all c r ys"
  by (simp add: replace_all_def)

lemma special_chars_distinct:
  "bslash \<noteq> squote" "bslash \<noteq> dquote" "squote \<noteq> dquote"
  "squote \<noteq> bslash" "dquote \<noteq> bslash" "dquote \<noteq> squote"
  by (simp_all add: bslash_def squote_def dquote_def)


lemma EscapeStringForJSX_Nil: "EscapeStringForJSX [] = []"
  by (simp add: EscapeStringForJSX_def replace_all_Nil)

lemma EscapeStringForJSX_Cons:
  "EscapeStringForJSX (c # cs) = escape_char c @ EscapeStringForJSX cs"
  by (simp add: EscapeStringForJSX_def escape_char_def replace_all_Cons replace_all_append
      replace_all_Nil special_chars_distinct)

lemma EscapeStringForJSX_concat:
  "EscapeStringForJSX str = concat (map escape_char str)"
  by (induction str) (simp_all add: EscapeStringForJSX_Nil EscapeStringForJSX_Cons)






text \<open>
  C3: for the path \<^verbatim>\<open>C:\temp\a"b.psd"\<close>, \<open>EscapeStringForJSX\<close> gives the text with each
  backslash doubled and each double quote preceded by a backslash; the route
  \<^verbatim>\<open>Photoshop.open\<close> sends the snippet \<^verbatim>\<open>fileOpen('...')\<close> with exactly this text
  between the quotes, and read back as a literal the text is the original path.
\<close>

theorem open_scenario_path:
  "EscapeStringForJSX scenario_path = scenario_escaped \<and>
   script_open (JObj [(''path'', JStr scenario_path)]) =
     Inr (''fileOpen('' @ [squote] @ scenario_escaped @ [squote] @ '')'') \<and>
   scripts_sent (snd (route_open (JObj [(''path'', JStr scenario_path)]) eng panel0)) =
     [''fileOpen('' @ [squote] @ scenario_escaped @ [squote] @ '')''] \<and>
   parse_literal_body squote scenario_escaped = Some scenario_path"
  by (simp add: scenario_path_def scenario_escaped_def route_open_def handler_def
      runEvalScript_def then_warn_def panel0_def script_open_def bind_err_def quoted_def
      EscapeStringForJSX_concat escape_char_def line_terminator_def bslash_def squote_def
      dquote_def newline_def creturn_def split: option.splits)

section \<open>Routes: lemmas\<close>

text \<open>The conversion to text on arrays and objects, and two snippets built with it.\<close>

lemma ToString_examples:
  "ToString (JArr [JNum ''3'', JNull, JArr [JStr ''x'', JBool True], JUndefined]) =
     Inr ''3,,x,true,''"
  "ToString (JObj [(''a'', JNum ''1'')]) = Inr ''[object Object]''"
  "ToString (JObj [(''toString'', JNum ''1'')]) = Inl TypeError"
  "ToString (JArr [JNum ''1'', JObj [(''toString'', JNull)]]) = Inl TypeError"
  by simp_all

lemma script_examples:
  "script_set_visible (JObj [(''layer_id'', JNum ''42''), (''visibility'', JBool True)]) =
     Inr ''setVisible(42, true)''"
  "script_set_visible JNull = Inl TypeError"
  "script_create_group (JObj [(''name'', JObj [(''toString'', JNull)])]) = Inl TypeError"
  by (simp_all add: script_set_visible_def script_create_group_def bind_err_def quoted_def)

lemma handler_dispatch:
  assumes "handler called build label data eng p = (Inr pr, p')"
  shows "\<exists>script. build data = Inr script \<and> scripts_sent p' = scripts_sent p @ [script] \<and>
     pr = (case eng script of None \<Rightarrow> Pending | Some r \<Rightarrow> Resolved (callback_payload r))"
  using assms
  by (auto simp add: handler_def runEvalScript_def then_warn_def Let_def
      split: sum.splits option.splits promise.splits)

lemma handler_throw:
  assumes "handler called build label data eng p = (Inl e, p')"
  shows "build data = Inl e \<and> scripts_sent p' = scripts_sent p"
  using assms
  by (auto simp add: handler_def runEvalScript_def then_warn_def Let_def
      split: sum.splits option.splits promise.splits)

lemma routes_are_handlers:
  assumes "(name, h) \<in> set addRoute_calls"
  shows "\<exists>called build label. h = handler called build label"
  using assms
  by (auto simp add: addRoute_calls_def route_open_def route_read_def route_get_layers_def
      route_set_visible_def route_get_active_document_name_def
      route_get_active_document_full_name_def route_save_def route_get_selected_layers_def
      route_create_group_def route_group_selected_layers_def route_import_smart_object_def
      route_replace_smart_object_def route_select_layers_def route_is_saved_def
      route_saveAs_def route_imprint_def)

lemma route_never_rejects:
  assumes "(name, h) \<in> set addRoute_calls"
  shows "fst (h data eng p) \<noteq> Inr (Rejected e)"
proof
  assume rej: "fst (h data eng p) = Inr (Rejected e)"
  from assms obtain called build label where h: "h = handler called build label"
    using routes_are_handlers by blast
  from rej have "h data eng p = (Inr (Rejected e), snd (h data eng p))"
    by (simp add: prod_eq_iff)
  with h obtain script where
    "Rejected e = (case eng script of None \<Rightarrow> Pending | Some r \<Rightarrow> Resolved (callback_payload r))"
    using handler_dispatch by blast
  then show False
    by (simp split: option.splits)
qed

text \<open>
  The routes that take a path escape it: for a payload whose path is the string \<open>s\<close>, the
  text between the quotes of the snippet is \<open>EscapeStringForJSX s\<close>.
\<close>

lemma path_routes_escape:
  "script_open (JObj [(''path'', JStr s)]) =
     Inr (''fileOpen('' @ quoted (EscapeStringForJSX s) @ '')'')"
  "script_import_smart_object (JObj [(''path'', JStr s)]) =
     Inr (''importSmartObject('' @ quoted (EscapeStringForJSX s) @ '')'')"
  by (simp_all add: script_open_def script_import_smart_object_def bind_err_def)

text \<open>
  C1 (the code at a failing input): for the group name \<^verbatim>\<open>a'b\<close> the routes
  \<^verbatim>\<open>Photoshop.create_group\<close> and \<^verbatim>\<open>Photoshop.group_selected_layers\<close> put the name
  into the snippet as it is, where \<open>EscapeStringForJSX\<close> would give \<^verbatim>\<open>a\'b\<close>; read as the
  body of a single-quoted literal, the raw name is not one literal.
\<close>

theorem create_group_raw_name:
  "script_create_group (JObj [(''name'', JStr (''a'' @ [squote] @ ''b''))]) =
     Inr (''createGroup('' @ [squote] @ ''a'' @ [squote] @ ''b'' @ [squote] @ '')'') \<and>
   script_group_selected_layers (JObj [(''name'', JStr (''a'' @ [squote] @ ''b''))]) =
     Inr (''groupSelectedLayers(null, '' @ [squote] @ ''a'' @ [squote] @ ''b'' @ [squote] @ '')'') \<and>
   EscapeStringForJSX (''a'' @ [squote] @ ''b'') = ''a'' @ [bslash, squote] @ ''b'' \<and>
   parse_literal_body squote (''a'' @ [squote] @ ''b'') = None"
  by (simp add: script_create_group_def script_group_selected_layers_def bind_err_def
      quoted_def EscapeStringForJSX_concat escape_char_def line_terminator_def bslash_def
      squote_def dquote_def newline_def creturn_def)

text \<open>
  C4 (the code at a failing input): the route \<^verbatim>\<open>Photoshop.select_layers\<close> sends the
  snippet \<^verbatim>\<open>selectLayers()\<close> for a payload with the layer ids 3 and 7, the same snippet
  and the same result as for a payload with the layer id 5: the ids do not reach the host.
\<close>

theorem select_layers_drops_ids:
  "script_select_layers (JObj [(''layers'', JArr [JNum ''3'', JNum ''7''])]) = Inr ''selectLayers()'' \<and>
   scripts_sent (snd (route_select_layers (JObj [(''layers'', JArr [JNum ''3'', JNum ''7''])]) eng p)) =
     scripts_sent p @ [''selectLayers()''] \<and>
   fst (route_select_layers (JObj [(''layers'', JArr [JNum ''3'', JNum ''7''])]) eng p) =
     fst (route_select_layers (JObj [(''layers'', JArr [JNum ''5''])]) eng p)"
  by (simp add: script_select_layers_def route_select_layers_def handler_def runEvalScript_def
      then_warn_def Let_def split: option.splits promise.splits)

text \<open>
  C6, as the code has it: for every call of a registered route whose handler returns its
  promise (it did not throw while it built the snippet), the handler has handed exactly one
  script to the engine; the promise is pending as long as the engine has not called back,
  and once it has, the promise is resolved with the text the callback delivered, which for
  a failed script is the engine's error text. The promise is never rejected.
\<close>

theorem route_one_dispatch_resolves:
  assumes "(name, h) \<in> set addRoute_calls" and "h data eng p = (Inr pr, p')"
  shows "(\<exists>script. scripts_sent p' = scripts_sent p @ [script] \<and>
            pr = (case eng script of
                    None \<Rightarrow> Pending
                  | Some r \<Rightarrow> Resolved (callback_payload r))) \<and>
         (\<forall>e. pr \<noteq> Rejected e)"
proof -
  from assms(1) obtain called build label where "h = handler called build label"
    using routes_are_handlers by blast
  with assms(2) obtain script where
    script: "scripts_sent p' = scripts_sent p @ [script]"
      "pr = (case eng script of None \<Rightarrow> Pending | Some r \<Rightarrow> Resolved (callback_payload r))"
    using handler_dispatch by blast
  from script(2) have "\<forall>e. pr \<noteq> Rejected e"
    by (simp split: option.splits)
  with script show ?thesis
    by blast
qed

text \<open>
  The theorem at the route \<^verbatim>\<open>Photoshop.open\<close>, the path \<^verbatim>\<open>a.psd\<close> and the engine in
  which every script fails.
\<close>

theorem route_one_dispatch_resolves_witness:
  "(''Photoshop.open'', route_open) \<in> set addRoute_calls \<and>
   fst (route_open (JObj [(''path'', JStr ''a.psd'')]) engine_failing panel0) =
     Inr (Resolved ''EvalScript error.'') \<and>
   (\<exists>script.
      scripts_sent (snd (route_open (JObj [(''path'', JStr ''a.psd'')]) engine_failing panel0)) =
        scripts_sent panel0 @ [script] \<and>
      Resolved ''EvalScript error.'' =
        (case engine_failing script of
           None \<Rightarrow> Pending
         | Some r \<Rightarrow> Resolved (callback_payload r)))"
proof -
  have mem: "(''Photoshop.open'', route_open) \<in> set addRoute_calls"
    by (simp add: addRoute_calls_def)
  have res: "fst (route_open (JObj [(''path'', JStr ''a.psd'')]) engine_failing panel0) =
      Inr (Resolved ''EvalScript error.'')"
    by (simp add: route_open_def handler_def runEvalScript_def then_warn_def script_open_def
        bind_err_def engine_failing_def)
  then have run: "route_open (JObj [(''path'', JStr ''a.psd'')]) engine_failing panel0 =
      (Inr (Resolved ''EvalScript error.''),
       snd (route_open (JObj [(''path'', JStr ''a.psd'')]) engine_failing panel0))"
    by (simp add: prod_eq_iff)
  from route_one_dispatch_resolves [OF mem run] mem res show ?thesis
    by blast
qed

text \<open>
  Counterexample to C6 as stated: when the engine reports that the script failed, the promise of the
  route \<^verbatim>\<open>Photoshop.open\<close> is resolved with the error text, not rejected; and for a
  payload without a path the handler throws before it hands any script to the engine.
\<close>

theorem route_open_failure_resolves:
  "fst (route_open (JObj [(''path'', JStr ''a.psd'')]) engine_failing panel0) =
     Inr (Resolved ''EvalScript error.'') \<and>
   fst (route_open (JObj []) engine_failing panel0) = Inl TypeError \<and>
   scripts_sent (snd (route_open (JObj []) engine_failing panel0)) = []"
  by (simp add: route_open_def handler_def runEvalScript_def then_warn_def script_open_def
      bind_err_def engine_failing_def panel0_def)

text \<open>
  C7: the method names of the calls of \<^verbatim>\<open>addRoute\<close> that the panel script makes are
  pairwise different: each name is registered exactly once.
\<close>

theorem addRoute_names_distinct:
  "distinct (map fst addRoute_calls)"
  by (simp add: addRoute_calls_def)

text \<open>
  C8: the channel object is constructed with the deadline 5000 (milliseconds).
\<close>

theorem RPC_deadline:
  "deadline_ms RPC = 5000"
  by (simp add: RPC_def)

section \<open>Harmony: setting node states\<close>

lemma apply_states_Nil: "apply_states [] h = h"
  by (simp add: apply_states_def)

lemma apply_states_Cons: "apply_states ((n, b) # ps) h = apply_states ps (setEnable n b h)"
  by (simp add: apply_states_def)

lemma apply_states_snoc: "apply_states (ps @ [(n, b)]) h = setEnable n b (apply_states ps h)"
  by (simp add: apply_states_def)

lemma setState_loop_apply:
  assumes "length nodes = length states" and "i \<le> length nodes"
  shows "setState_loop nodes states i h = apply_states (drop i (zip nodes states)) h"
  using assms
proof (induction nodes states i h rule: setState_loop.induct)
  case (1 nodes states i h)
  show ?case
  proof (cases "i < length nodes")
    case True
    with "1.prems" have "drop i (zip nodes states) =
        (nodes ! i, states ! i) # drop (i + 1) (zip nodes states)"
      by (simp add: Cons_nth_drop_Suc [symmetric])
    moreover have "setState_loop nodes states i h =
        setState_loop nodes states (i + 1) (setEnable (nodes ! i) (states ! i) h)"
      using True by (subst setState_loop.simps) simp
    moreover have "setState_loop nodes states (i + 1) (setEnable (nodes ! i) (states ! i) h) =
        apply_states (drop (i + 1) (zip nodes states)) (setEnable (nodes ! i) (states ! i) h)"
      using "1.IH" [OF True "1.prems"(1)] True by simp
    ultimately show ?thesis
      by (simp add: apply_states_Cons)
  next
    case False
    have "setState_loop nodes states i h = h"
      using False by (subst setState_loop.simps) simp
    with False "1.prems" show ?thesis
      by (simp add: apply_states_Nil)
  qed
qed

text \<open>The last write to a node path decides its state.\<close>

lemma apply_states_last_write:
  assumes "i < length ps"
    and "\<forall>j. i < j \<and> j < length ps \<longrightarrow> fst (ps ! j) \<noteq> fst (ps ! i)"
  shows "node_enable (apply_states ps h) (fst (ps ! i)) = snd (ps ! i)"
  using assms
proof (induction ps rule: rev_induct)
  case Nil
  then show ?case by simp
next
  case (snoc x ps)
  obtain n b where x: "x = (n, b)" by (cases x)
  show ?case
  proof (cases "i < length ps")
    case True
    from snoc.prems(2) [rule_format, of "length ps"] True
    have "fst ((ps @ [x]) ! length ps) \<noteq> fst ((ps @ [x]) ! i)"
      by simp
    with True x have diff: "n \<noteq> fst (ps ! i)"
      by (simp add: nth_append)
    have later: "\<forall>j. i < j \<and> j < length ps \<longrightarrow> fst (ps ! j) \<noteq> fst (ps ! i)"
    proof (intro allI impI)
      fix j assume j: "i < j \<and> j < length ps"
      with snoc.prems(2) [rule_format, of j]
      have "fst ((ps @ [x]) ! j) \<noteq> fst ((ps @ [x]) ! i)"
        by simp
      with j True show "fst (ps ! j) \<noteq> fst (ps ! i)"
        by (simp add: nth_append)
    qed
    from snoc.IH [OF True later] diff True show ?thesis
      by (simp add: x apply_states_snoc setEnable_def nth_append)
  next
    case False
    with snoc.prems(1) have "i = length ps" by simp
    then show ?thesis
      by (simp add: x apply_states_snoc setEnable_def)
  qed
qed

text \<open>Nodes that are not named keep their state, and nothing but node states changes.\<close>

lemma apply_states_frame:
  "n \<notin> fst ` set ps \<Longrightarrow> node_enable (apply_states ps h) n = node_enable h n"
  by (induction ps rule: rev_induct)
    (auto simp add: apply_states_Nil apply_states_snoc setEnable_def)

lemma apply_states_other_fields:
  "scene_metadata (apply_states ps h) = scene_metadata h \<and>
   column_type (apply_states ps h) = column_type h"
  by (induction ps rule: rev_induct)
    (auto simp add: apply_states_Nil apply_states_snoc setEnable_def)

lemma later_distinct:
  assumes "xs ! i \<notin> set (drop (Suc i) xs)"
  shows "\<forall>j. i < j \<and> j < length xs \<longrightarrow> xs ! j \<noteq> xs ! i"
proof (intro allI impI)
  fix j assume j: "i < j \<and> j < length xs"
  then have "drop (Suc i) xs ! (j - Suc i) = xs ! j"
    and "j - Suc i < length (drop (Suc i) xs)"
    by (simp, simp, arith)
  then have "xs ! j \<in> set (drop (Suc i) xs)"
    by (metis nth_mem)
  with assms show "xs ! j \<noteq> xs ! i" by auto
qed

text \<open>
  C5: when the two arrays differ in length, \<open>setState\<close> returns false and leaves the
  scene as it was: no node state is written. When they have the same length it returns true
  after writing \<open>states[i]\<close> to \<open>nodes[i]\<close> for every index, first to last; so every node
  path holds the state of its index (of its last index, when a path is named twice).
\<close>

theorem setState_all_or_nothing:
  "(length nodes \<noteq> length states \<longrightarrow> setState (nodes, states) h = (False, h)) \<and>
   (length nodes = length states \<longrightarrow>
      setState (nodes, states) h = (True, apply_states (zip nodes states) h) \<and>
      (\<forall>i < length nodes. nodes ! i \<notin> set (drop (Suc i) nodes) \<longrightarrow>
          node_enable (snd (setState (nodes, states) h)) (nodes ! i) = states ! i))"
proof (intro conjI impI allI)
  assume "length nodes \<noteq> length states"
  then show "setState (nodes, states) h = (False, h)"
    by (simp add: setState_def)
next
  assume eq: "length nodes = length states"
  then show run: "setState (nodes, states) h = (True, apply_states (zip nodes states) h)"
    using setState_loop_apply [of nodes states 0 h] by (simp add: setState_def)
  fix i
  assume i: "i < length nodes" and last: "nodes ! i \<notin> set (drop (Suc i) nodes)"
  from later_distinct [OF last] eq i
  have "node_enable (apply_states (zip nodes states) h) (fst (zip nodes states ! i)) =
      snd (zip nodes states ! i)"
    by (intro apply_states_last_write) auto
  with eq i show "node_enable (snd (setState (nodes, states) h)) (nodes ! i) = states ! i"
    by (simp add: run)
qed

text \<open>
  The theorem at two node paths: with one state nothing is written, with two states both
  are.
\<close>

theorem setState_all_or_nothing_witness:
  "length [''Top/a'', ''Top/b''] \<noteq> length [False] \<and>
   setState ([''Top/a'', ''Top/b''], [False]) harmony0 = (False, harmony0) \<and>
   length [''Top/a'', ''Top/b''] = length [False, True] \<and>
   fst (setState ([''Top/a'', ''Top/b''], [False, True]) harmony0) = True \<and>
   node_enable (snd (setState ([''Top/a'', ''Top/b''], [False, True]) harmony0)) ''Top/a'' = False \<and>
   node_enable (snd (setState ([''Top/a'', ''Top/b''], [False, True]) harmony0)) ''Top/b'' = True"
proof -
  have a: "setState ([''Top/a'', ''Top/b''], [False]) harmony0 = (False, harmony0)"
    using setState_all_or_nothing [of "[''Top/a'', ''Top/b'']" "[False]" harmony0] by simp
  have eq: "length [''Top/a'', ''Top/b''] = length [False, True]"
    by simp
  note t = setState_all_or_nothing [of "[''Top/a'', ''Top/b'']" "[False, True]" harmony0,
      THEN conjunct2, rule_format, OF eq]
  from t have b: "fst (setState ([''Top/a'', ''Top/b''], [False, True]) harmony0) = True"
    by simp
  have d: "node_enable (snd (setState ([''Top/a'', ''Top/b''], [False, True]) harmony0))
      ''Top/a'' = False"
    using t [THEN conjunct2, rule_format, of 0] by simp
  have e: "node_enable (snd (setState ([''Top/a'', ''Top/b''], [False, True]) harmony0))
      ''Top/b'' = True"
    using t [THEN conjunct2, rule_format, of 1] by simp
  from a b d e show ?thesis by simp
qed

section \<open>Harmony: scene metadata\<close>

text \<open>
  C9: when \<^verbatim>\<open>JSON.parse\<close> reads the text of \<^verbatim>\<open>JSON.stringify(m)\<close> back as \<open>m\<close>,
  \<open>getSceneData\<close> after \<open>setSceneData(m)\<close> returns \<open>m\<close>; and on a scene without an
  entry named \<^verbatim>\<open>avalon\<close>, \<open>getSceneData\<close> returns the empty object and does not fail.
\<close>

theorem sceneData_round_trip:
  "(JSON_parse (JSON_stringify m) = Inr m \<longrightarrow>
      getSceneData JSON_parse (setSceneData JSON_stringify m h) = Inr m) \<and>
   (scene_metadata h ''avalon'' = None \<longrightarrow> getSceneData JSON_parse h = Inr (JObj []))"
  by (simp add: getSceneData_def setSceneData_def setMetadata_def)

text \<open>The theorem at the metadata object \<^verbatim>\<open>{"asset":"hero"}\<close> and the fresh scene.\<close>

theorem sceneData_round_trip_witness:
  "JSON_parse_sample (JSON_stringify_sample sample_metadata) = Inr sample_metadata \<and>
   getSceneData JSON_parse_sample (setSceneData JSON_stringify_sample sample_metadata harmony0) =
     Inr sample_metadata \<and>
   scene_metadata harmony0 ''avalon'' = None \<and>
   getSceneData JSON_parse_sample harmony0 = Inr (JObj [])"
proof -
  have rt: "JSON_parse_sample (JSON_stringify_sample sample_metadata) =
      Inr sample_metadata"
    by (simp add: JSON_parse_sample_def JSON_stringify_sample_def)
  have none: "scene_metadata harmony0 ''avalon'' = None"
    by (simp add: harmony0_def)
  from sceneData_round_trip [of JSON_parse_sample JSON_stringify_sample sample_metadata harmony0]
    rt none
  show ?thesis by simp
qed

section \<open>Harmony: unique column names\<close>

lemma examined_length: "length (examined h ns) \<le> length ns"
  by (induction ns) auto

lemma examined_take: "examined h ns = take (length (examined h ns)) ns"
  by (induction ns) auto

lemma upt_step: "suffix < 2000 \<Longrightarrow> [suffix..<2000] = suffix # [suffix + 1..<2000]"
  by (simp add: upt_conv_Cons)

lemma getUniqueColumnName_loop_run:
  assumes "suffix \<le> 2000" and "columnName = candidate p suffix"
  shows "getUniqueColumnName_loop h p suffix columnName asked =
         (first_free h (map (candidate p) [suffix..<2000]) (candidate p 2000),
          asked @ examined h (map (candidate p) [suffix..<2000]))"
  using assms
proof (induction h p suffix columnName asked rule: getUniqueColumnName_loop.induct)
  case (1 h columnPrefix suffix columnName asked)
  show ?case
  proof (cases "suffix < 2000")
    case False
    with "1.prems" have stop: "suffix = 2000" by simp
    have "getUniqueColumnName_loop h columnPrefix suffix columnName asked = (columnName, asked)"
      using False by (subst getUniqueColumnName_loop.simps) simp
    with stop "1.prems" show ?thesis
      by (simp add: first_free_def)
  next
    case True
    note lt = this
    show ?thesis
    proof (cases "column_type h columnName = []")
      case True
      with lt "1.prems" show ?thesis
        by (simp add: getUniqueColumnName_loop.simps [of h columnPrefix suffix] first_free_def
            upt_step column_free_def)
    next
      case False
      have next_name:
        "columnPrefix @ ''_'' @ string_of_nat (suffix + 1) = candidate columnPrefix (suffix + 1)"
        by (simp add: candidate_def)
      from lt have le: "suffix + 1 \<le> 2000" by simp
      have IH: "getUniqueColumnName_loop h columnPrefix (suffix + 1)
                 (columnPrefix @ ''_'' @ string_of_nat (suffix + 1)) (asked @ [columnName]) =
         (first_free h (map (candidate columnPrefix) [suffix + 1..<2000])
            (candidate columnPrefix 2000),
          (asked @ [columnName]) @ examined h (map (candidate columnPrefix) [suffix + 1..<2000]))"
        using "1.IH" [OF lt False le next_name] .
      have unfold: "getUniqueColumnName_loop h columnPrefix suffix columnName asked =
          getUniqueColumnName_loop h columnPrefix (suffix + 1)
                 (columnPrefix @ ''_'' @ string_of_nat (suffix + 1)) (asked @ [columnName])"
        using lt False by (subst getUniqueColumnName_loop.simps) simp
      from False "1.prems" have notfree: "\<not> column_free h (candidate columnPrefix suffix)"
        by (simp add: column_free_def)
      have ff: "first_free h (map (candidate columnPrefix) [suffix..<2000])
                  (candidate columnPrefix 2000) =
                first_free h (map (candidate columnPrefix) [suffix + 1..<2000])
                  (candidate columnPrefix 2000)"
        using notfree by (simp add: upt_step [OF lt] first_free_def)
      have ex: "examined h (map (candidate columnPrefix) [suffix..<2000]) =
                columnName # examined h (map (candidate columnPrefix) [suffix + 1..<2000])"
        using notfree "1.prems"(2) by (simp add: upt_step [OF lt])
      show ?thesis
        unfolding unfold ff ex using IH by simp
    qed
  qed
qed

lemma find_snoc:
  "find P (xs @ [y]) =
     (case find P xs of Some n \<Rightarrow> Some n | None \<Rightarrow> if P y then Some y else None)"
  by (induction xs) auto

lemma first_free_snoc: "first_free h (ns @ [m]) m = first_free h ns m"
  by (simp add: first_free_def find_snoc split: option.splits)

lemma upt_2001: "[0..<2001] = [0..<2000] @ [2000]"
proof -
  have "(2001::nat) = Suc 2000" by simp
  then show ?thesis by (simp only: upt_Suc_append)
qed

lemma candidates_snoc: "candidates p = map (candidate p) [0..<2000] @ [candidate p 2000]"
  by (simp add: candidates_def upt_2001)

lemma getUniqueColumnName_run_eq:
  "getUniqueColumnName_run h p =
     (first_free h (map (candidate p) [0..<2000]) (candidate p 2000),
      examined h (map (candidate p) [0..<2000]))"
  unfolding getUniqueColumnName_run_def
  using getUniqueColumnName_loop_run [of 0 p p h "[]"] by (simp add: candidate_def)

text \<open>The loop asks \<^verbatim>\<open>column.type\<close> at most 2000 times: the last candidate is not asked about.\<close>

lemma getUniqueColumnName_asks_2000:
  "length (snd (getUniqueColumnName_run h p)) \<le> 2000"
  using examined_length [of h "map (candidate p) [0..<2000]"]
  by (simp add: getUniqueColumnName_run_eq)

text \<open>
  With the columns \<^verbatim>\<open>ATV\<close> and \<^verbatim>\<open>ATV_1\<close> taken, the prefix \<^verbatim>\<open>ATV\<close> gives
  \<^verbatim>\<open>ATV_2\<close> after three questions.
\<close>

lemma getUniqueColumnName_two_taken:
  "getUniqueColumnName_run harmony_two_columns ''ATV'' =
     (''ATV_2'', [''ATV'', ''ATV_1'', ''ATV_2''])"
  by (simp add: getUniqueColumnName_run_def getUniqueColumnName_loop.simps
      harmony_two_columns_def string_of_nat.simps digit_def)

text \<open>
  C10: for every column prefix \<open>getUniqueColumnName\<close> returns (the function is total),
  after asking about at most 2001 names, which are the first ones of the candidates: the
  prefix itself, then the prefix with the counters 1 to 2000. It returns the first candidate
  that no column has, and the last candidate, with the counter 2000, when every candidate is
  taken.
\<close>

theorem getUniqueColumnName_first_free:
  "length (snd (getUniqueColumnName_run h p)) \<le> 2001 \<and>
   snd (getUniqueColumnName_run h p) =
     take (length (snd (getUniqueColumnName_run h p))) (candidates p) \<and>
   getUniqueColumnName h p =
     (case find (column_free h) (candidates p) of
        Some n \<Rightarrow> n
      | None \<Rightarrow> candidate p 2000)"
proof -
  have len: "length (examined h (map (candidate p) [0..<2000])) \<le> 2000"
    using examined_length [of h "map (candidate p) [0..<2000]"] by simp
  have tk: "examined h (map (candidate p) [0..<2000]) =
     take (length (examined h (map (candidate p) [0..<2000]))) (candidates p)"
    using examined_take [of h "map (candidate p) [0..<2000]"] len
    by (simp add: candidates_snoc)
  have res: "first_free h (map (candidate p) [0..<2000]) (candidate p 2000) =
       (case find (column_free h) (candidates p) of
          Some n \<Rightarrow> n
        | None \<Rightarrow> candidate p 2000)"
    using first_free_snoc [of h "map (candidate p) [0..<2000]" "candidate p 2000"]
    by (simp add: candidates_snoc first_free_def)
  show ?thesis
    using len tk res by (simp add: getUniqueColumnName_run_eq getUniqueColumnName_def)
qed

end
